theory Spec2Isabelle
  imports Complex_Main
begin

section \<open>Python values\<close>

text \<open>
  The functions of \<^verbatim>\<open>py4cytoscape_utils.py\<close> and \<^verbatim>\<open>style_dependencies.py\<close> are
  duck-typed: an argument may be \<^verbatim>\<open>None\<close>, a number, a string or a list. A value is
  therefore a tagged union. A float is a rational number, an infinity or a NaN; the only
  float operations the code performs are comparisons with integer literals, which Python
  decides exactly.
\<close>

datatype pyfloat = Finite rat | PosInf | NegInf | NaN

datatype pyval =
    PNone
  | PBool bool
  | PInt int
  | PFloat pyfloat
  | PStr string
  | PList "pyval list"
  | PDict "(pyval \<times> pyval) list"

text \<open>\<^verbatim>\<open>isinstance\<close>: \<^verbatim>\<open>bool\<close> is a subclass of \<^verbatim>\<open>int\<close>, so a boolean is an instance of \<^verbatim>\<open>int\<close>.\<close>

fun isinstance_int :: "pyval \<Rightarrow> bool" where
  "isinstance_int (PBool b) = True"
| "isinstance_int (PInt i) = True"
| "isinstance_int v = False"

fun isinstance_float :: "pyval \<Rightarrow> bool" where
  "isinstance_float (PFloat f) = True"
| "isinstance_float v = False"


text \<open>
  \<^verbatim>\<open>x < k\<close> and \<^verbatim>\<open>x > k\<close> for an integer literal \<open>k\<close>. \<^verbatim>\<open>True\<close> is 1 and \<^verbatim>\<open>False\<close> is 0;
  every comparison with a NaN is false. The validators reach a comparison only behind
  the \<^verbatim>\<open>isinstance\<close> tests (\<^verbatim>\<open>or\<close> short-circuits), so the last equation is never used
  by them.
\<close>

fun py_lt :: "pyval \<Rightarrow> int \<Rightarrow> bool" where
  "py_lt (PBool b) k = ((if b then 1 else 0) < k)"
| "py_lt (PInt i) k = (i < k)"
| "py_lt (PFloat (Finite q)) k = (q < of_int k)"
| "py_lt (PFloat NegInf) k = True"
| "py_lt (PFloat PosInf) k = False"
| "py_lt (PFloat NaN) k = False"
| "py_lt v k = False"

fun py_gt :: "pyval \<Rightarrow> int \<Rightarrow> bool" where
  "py_gt (PBool b) k = ((if b then 1 else 0) > k)"
| "py_gt (PInt i) k = (i > k)"
| "py_gt (PFloat (Finite q)) k = (q > of_int k)"
| "py_gt (PFloat PosInf) k = True"
| "py_gt (PFloat NegInf) k = False"
| "py_gt (PFloat NaN) k = False"
| "py_gt v k = False"


section \<open>Errors\<close>

text \<open>
  An f-string is kept as its parts: the literal text and the values it interpolates.
  \<^verbatim>\<open>CyError(message, caller=...)\<close> carries the message and, where the code passes it,
  the name of the calling function (\<^verbatim>\<open>sys._getframe(1).f_code.co_name\<close>, here an explicit
  parameter of each validator). \<open>AttributeError\<close> is what Python raises for
  \<^verbatim>\<open>color.startswith\<close> on a value that is not a string. \<open>RequestException\<close> is the failure
  of an HTTP collaborator.
\<close>

datatype fpart = Lit string | Fmt pyval

datatype error =
    CyError "fpart list" "string option"
  | AttributeError
  | RequestException string

section \<open>Validators\<close>



text \<open>
  \<^verbatim>\<open>
  def verify_opacities(opacities):
      if opacities is None: return
      if not isinstance(opacities, list):  opacities = [opacities]
      for opacity in opacities:
          if not (isinstance(opacity, float) or isinstance(opacity, int)) or opacity < 0 or opacity > 255:
              raise CyError(f'"{opacity}" is not a valid opacity (...).', caller=...)
  \<close>
\<close>

fun opacities_loop :: "string \<Rightarrow> pyval list \<Rightarrow> error + unit" where
  "opacities_loop caller [] = Inr ()"
| "opacities_loop caller (opacity # opacities) =
     (if \<not> (isinstance_float opacity \<or> isinstance_int opacity) \<or> py_lt opacity 0 \<or> py_gt opacity 255
      then Inl (CyError [Lit ''\"'', Fmt opacity,
             Lit ''\" is not a valid opacity (has to be an integer between 0 and 255).'']
             (Some caller))
      else opacities_loop caller opacities)"

definition verify_opacities :: "string \<Rightarrow> pyval \<Rightarrow> error + unit" where
  "verify_opacities caller opacities =
     (if opacities = PNone then Inr ()
      else opacities_loop caller
             (case opacities of PList xs \<Rightarrow> xs | _ \<Rightarrow> [opacities]))"



text \<open>
  \<^verbatim>\<open>
  def verify_slot(slot):
      if not (isinstance(slot, float) or isinstance(slot, int)) or slot < 1 or slot > 9:
          raise CyError(f'slot must be an integer between 1 and 9', caller=...)
  \<close>
  This validator has neither the \<^verbatim>\<open>None\<close> test nor the list normalisation of the other
  three: its argument is one value.
\<close>

definition verify_slot :: "string \<Rightarrow> pyval \<Rightarrow> error + unit" where
  "verify_slot caller slot =
     (if \<not> (isinstance_float slot \<or> isinstance_int slot) \<or> py_lt slot 1 \<or> py_gt slot 9
      then Inl (CyError [Lit ''slot must be an integer between 1 and 9''] (Some caller))
      else Inr ())"

section \<open>Identifier translation\<close>

text \<open>
  \<^verbatim>\<open>tables.get_table_columns('node', ['name'], 'default', network, base_url)\<close> is a
  collaborator outside these files; the table it returns is a parameter of the model. The
  translators read two things of it: the index (the SUIDs, integers) and the \<^verbatim>\<open>name\<close>
  column (strings). A table is the list of its rows in order, each a SUID and a name. The
  \<^verbatim>\<open>network\<close> and \<^verbatim>\<open>base_url\<close> arguments only select the table and are left out.
\<close>

type_synonym table = "(int \<times> string) list"

text \<open>
  An element of a batch is a name (a \<^verbatim>\<open>str\<close>) or a SUID (an \<^verbatim>\<open>int\<close>); the argument is
  \<^verbatim>\<open>None\<close>, one string, or a list of elements, as the docstrings say (\<^verbatim>\<open>str or list\<close>).
\<close>

datatype ident = Name string | Suid int

datatype batch = BNone | BStr string | BList "ident list"

fun of_ident :: "ident \<Rightarrow> pyval" where
  "of_ident (Name s) = PStr s"
| "of_ident (Suid i) = PInt i"

text \<open>\<^verbatim>\<open>if isinstance(node_names, str): node_names = [node_names]\<close>\<close>

fun as_list :: "batch \<Rightarrow> ident list" where
  "as_list (BStr s) = [Name s]"
| "as_list (BList xs) = xs"
| "as_list BNone = []"

text \<open>
  \<^verbatim>\<open>x in df.index\<close>: an integer is in the index when some row has it; a string is never a
  member of an index of integers.
\<close>

fun in_index :: "ident \<Rightarrow> int list \<Rightarrow> bool" where
  "in_index (Suid i) all_suids = (i \<in> set all_suids)"
| "in_index (Name s) all_suids = False"

text \<open>
  One cell of \<^verbatim>\<open>df.name.eq(node_name)\<close>: a name cell equals a string with the same
  characters, and never equals an integer.
\<close>

fun name_eq :: "string \<Rightarrow> ident \<Rightarrow> bool" where
  "name_eq cell (Name s) = (cell = s)"
| "name_eq cell (Suid i) = False"

text \<open>\<^verbatim>\<open>list(df[df.name.eq(node_name)].index.values)\<close>: the SUIDs of the matching rows, in table order.\<close>

definition rows_eq_name :: "table \<Rightarrow> ident \<Rightarrow> int list" where
  "rows_eq_name df node_name = map fst (filter (\<lambda>row. name_eq (snd row) node_name) df)"

text \<open>
  \<^verbatim>\<open>
  def node_name_to_node_suid(node_names, network=None, base_url=DEFAULT_BASE_URL):
      if node_names is None: return None
      if isinstance(node_names, str): node_names = [node_names]
      df = tables.get_table_columns('node', ['name'], 'default', network=network, base_url=base_url)
      all_suids = df.index
      test_present = [x in all_suids for x in node_names]
      if not False in test_present:
          return node_names
      node_suids = [list(df[df.name.eq(node_name)].index.values) for node_name in node_names]
      if True in [True if len(x) == 0 else False for x in node_suids]:
          raise CyError(f'Invalid name in node name list: {node_names}')
      node_suids = [x[0] if len(x) == 1 else x for x in node_suids]
      return node_suids
  \<close>
\<close>

definition node_name_to_node_suid :: "table \<Rightarrow> batch \<Rightarrow> error + pyval" where
  "node_name_to_node_suid df node_names0 =
     (if node_names0 = BNone then Inr PNone
      else
        let node_names = as_list node_names0;
            all_suids = map fst df;
            test_present = map (\<lambda>x. in_index x all_suids) node_names
        in if False \<notin> set test_present then Inr (PList (map of_ident node_names))
           else
             let node_suids = map (rows_eq_name df) node_names
             in if True \<in> set (map (\<lambda>x. length x = 0) node_suids)
                then Inl (CyError [Lit ''Invalid name in node name list: '',
                                   Fmt (PList (map of_ident node_names))] None)
                else Inr (PList (map (\<lambda>x. if length x = 1 then PInt (x ! 0)
                                            else PList (map PInt x)) node_suids)))"

text \<open>
  \<^verbatim>\<open>edge_name_to_edge_suid\<close> is the same code on the edge table, with the message
  \<^verbatim>\<open>f'Invalid edge name in list: {edge_names}'\<close>.
\<close>

definition edge_name_to_edge_suid :: "table \<Rightarrow> batch \<Rightarrow> error + pyval" where
  "edge_name_to_edge_suid df edge_names0 =
     (if edge_names0 = BNone then Inr PNone
      else
        let edge_names = as_list edge_names0;
            all_suids = map fst df;
            test_present = map (\<lambda>x. in_index x all_suids) edge_names
        in if False \<notin> set test_present then Inr (PList (map of_ident edge_names))
           else
             let edge_suids = map (rows_eq_name df) edge_names
             in if True \<in> set (map (\<lambda>x. length x = 0) edge_suids)
                then Inl (CyError [Lit ''Invalid edge name in list: '',
                                   Fmt (PList (map of_ident edge_names))] None)
                else Inr (PList (map (\<lambda>x. if length x = 1 then PInt (x ! 0)
                                            else PList (map PInt x)) edge_suids)))"

text \<open>
  \<^verbatim>\<open>x in all_names\<close>, where \<^verbatim>\<open>all_names = df['name'].values\<close> is the array of the names: a
  string is in it when some cell equals it, an integer never equals a name.
\<close>

fun in_names :: "ident \<Rightarrow> string list \<Rightarrow> bool" where
  "in_names (Name s) all_names = (s \<in> set all_names)"
| "in_names (Suid i) all_names = False"

text \<open>
  \<^verbatim>\<open>all_suids_list.index(node_suid)\<close>: the position of the first equal element; \<open>None\<close>
  stands for the \<^verbatim>\<open>ValueError\<close> Python raises when there is none.
\<close>

fun list_index :: "int list \<Rightarrow> ident \<Rightarrow> nat option" where
  "list_index [] x = None"
| "list_index (s # ss) x =
     (if x = Suid s then Some 0 else map_option Suc (list_index ss x))"

text \<open>
  \<^verbatim>\<open>
  def node_suid_to_node_name(node_suids, network=None, base_url=DEFAULT_BASE_URL):
      if node_suids is None: return None
      if isinstance(node_suids, str): node_suids = [node_suids]
      df = tables.get_table_columns('node', ['name'], 'default', network, base_url=base_url)
      all_names = df['name'].values
      test_present = [x in all_names for x in node_suids]
      if not False in test_present:
          return node_suids
      all_suids_list = df.index.tolist()
      try:
          node_names = [all_names[all_suids_list.index(node_suid)] for node_suid in node_suids]
          return node_names
      except Exception as e:
          raise CyError(f'Invalid node SUID in list: {node_suids}')
  \<close>
  The index read \<^verbatim>\<open>all_names[i]\<close> is in range, since \<open>i\<close> is a position of the index and
  the two columns have the same length.
\<close>

definition node_suid_to_node_name :: "table \<Rightarrow> batch \<Rightarrow> error + pyval" where
  "node_suid_to_node_name df node_suids0 =
     (if node_suids0 = BNone then Inr PNone
      else
        let node_suids = as_list node_suids0;
            all_names = map snd df;
            test_present = map (\<lambda>x. in_names x all_names) node_suids
        in if False \<notin> set test_present then Inr (PList (map of_ident node_suids))
           else
             let all_suids_list = map fst df;
                 positions = map (list_index all_suids_list) node_suids
             in if None \<in> set positions
                then Inl (CyError [Lit ''Invalid node SUID in list: '',
                                   Fmt (PList (map of_ident node_suids))] None)
                else Inr (PList (map (\<lambda>i. PStr (all_names ! the i)) positions)))"

section \<open>Style dependencies\<close>

text \<open>
  \<^verbatim>\<open>styles.get_visual_style_names\<close>, \<^verbatim>\<open>commands.cyrest_put\<close> and \<^verbatim>\<open>commands.commands_post\<close>
  talk to the remote application. The state threaded through the code is the history of
  what the process has issued, in order; what the remote answers is a parameter: a record
  of functions from the history so far and the request to a reply or a failure.
\<close>

datatype event =
    GetVisualStyleNames string
  | StderrWrite string
  | CyrestPut string pyval string bool
  | CommandsPost string

record remote =
  visual_style_names :: "event list \<Rightarrow> string \<Rightarrow> error + string list"
  put_reply :: "event list \<Rightarrow> string \<Rightarrow> pyval \<Rightarrow> string \<Rightarrow> error + pyval"
  post_reply :: "event list \<Rightarrow> string \<Rightarrow> error + pyval"

text \<open>
  Modelled from the spec: the three collaborators, which are not in these files. Each
  issues one request (recorded in the history) and returns the remote's answer.
\<close>

definition get_visual_style_names ::
  "remote \<Rightarrow> string \<Rightarrow> event list \<Rightarrow> (error + string list) \<times> event list" where
  "get_visual_style_names R base_url h =
     (visual_style_names R h base_url, h @ [GetVisualStyleNames base_url])"

definition cyrest_put ::
  "remote \<Rightarrow> string \<Rightarrow> pyval \<Rightarrow> string \<Rightarrow> bool \<Rightarrow> event list \<Rightarrow> (error + pyval) \<times> event list" where
  "cyrest_put R operation body base_url require_json h =
     (put_reply R h operation body base_url, h @ [CyrestPut operation body base_url require_json])"

definition commands_post ::
  "remote \<Rightarrow> string \<Rightarrow> event list \<Rightarrow> (error + pyval) \<times> event list" where
  "commands_post R cmd h = (post_reply R h cmd, h @ [CommandsPost cmd])"

text \<open>The requests that write to the remote application.\<close>

fun is_write :: "event \<Rightarrow> bool" where
  "is_write (CyrestPut operation body base_url require_json) = True"
| "is_write (CommandsPost cmd) = True"
| "is_write e = False"

text \<open>
  \<^verbatim>\<open>
  def set_style_dependencies(style_name='default', dependencies={}, base_url=DEFAULT_BASE_URL):
      if style_name not in styles.get_visual_style_names(base_url=base_url):
          error = 'Error in py4cytoscape:set_style_dependencies. No visual style named "' + style_name + '"'
          sys.stderr.write(error)
          raise CyError(error)
      dep_list = [{'visualPropertyDependency': dep, 'enabled': val}    for dep, val in dependencies.items()]
      res = commands.cyrest_put('styles/' + style_name + '/dependencies', body=dep_list, base_url=base_url, require_json=False)
      res = commands.commands_post('vizmap apply styles="' + style_name + '"')
      return res
  \<close>
  The dictionary \<^verbatim>\<open>dependencies\<close> is the list of its items in insertion order. An
  exception of a collaborator propagates. \<^verbatim>\<open>commands_post\<close> is called without
  \<^verbatim>\<open>base_url\<close>. The decorator \<^verbatim>\<open>@cy_log\<close> (logging, from a module outside these files)
  is left out.
\<close>

definition set_style_dependencies ::
  "remote \<Rightarrow> string \<Rightarrow> (pyval \<times> pyval) list \<Rightarrow> string \<Rightarrow> event list
     \<Rightarrow> (error + pyval) \<times> event list" where
  "set_style_dependencies R style_name dependencies base_url h =
     (case get_visual_style_names R base_url h of
        (Inl e, h1) \<Rightarrow> (Inl e, h1)
      | (Inr names, h1) \<Rightarrow>
          (if style_name \<notin> set names then
             (let error = ''Error in py4cytoscape:set_style_dependencies. No visual style named \"''
                           @ style_name @ ''\"''
              in (Inl (CyError [Lit error] None), h1 @ [StderrWrite error]))
           else
             (let dep_list = PList (map (\<lambda>(dep, val).
                     PDict [(PStr ''visualPropertyDependency'', dep), (PStr ''enabled'', val)])
                   dependencies)
              in (case cyrest_put R (''styles/'' @ style_name @ ''/dependencies'') dep_list
                         base_url False h1 of
                    (Inl e, h2) \<Rightarrow> (Inl e, h2)
                  | (Inr res, h2) \<Rightarrow>
                      commands_post R (''vizmap apply styles=\"'' @ style_name @ ''\"'') h2))))"

text \<open>
  \<^verbatim>\<open>
  def match_arrow_color_to_edge(new_state, style_name='default', base_url=DEFAULT_BASE_URL):
      toggle = 'true' if new_state else 'false'
      res = set_style_dependencies(style_name=style_name, dependencies={'arrowColorMatchesEdge': toggle}, base_url=base_url)
      return res
  \<close>
  and the same with \<^verbatim>\<open>'nodeSizeLocked'\<close> in \<^verbatim>\<open>lock_node_dimensions\<close> and
  \<^verbatim>\<open>'nodeCustomGraphicsSizeSync'\<close> in \<^verbatim>\<open>sync_node_custom_graphics_size\<close>. \<^verbatim>\<open>new_state\<close> is
  a \<^verbatim>\<open>bool\<close>.
\<close>

definition match_arrow_color_to_edge ::
  "remote \<Rightarrow> bool \<Rightarrow> string \<Rightarrow> string \<Rightarrow> event list \<Rightarrow> (error + pyval) \<times> event list" where
  "match_arrow_color_to_edge R new_state style_name base_url h =
     (let toggle = (if new_state then ''true'' else ''false'')
      in set_style_dependencies R style_name
           [(PStr ''arrowColorMatchesEdge'', PStr toggle)] base_url h)"

definition lock_node_dimensions ::
  "remote \<Rightarrow> bool \<Rightarrow> string \<Rightarrow> string \<Rightarrow> event list \<Rightarrow> (error + pyval) \<times> event list" where
  "lock_node_dimensions R new_state style_name base_url h =
     (let toggle = (if new_state then ''true'' else ''false'')
      in set_style_dependencies R style_name
           [(PStr ''nodeSizeLocked'', PStr toggle)] base_url h)"

definition sync_node_custom_graphics_size ::
  "remote \<Rightarrow> bool \<Rightarrow> string \<Rightarrow> string \<Rightarrow> event list \<Rightarrow> (error + pyval) \<times> event list" where
  "sync_node_custom_graphics_size R new_state style_name base_url h =
     (let toggle = (if new_state then ''true'' else ''false'')
      in set_style_dependencies R style_name
           [(PStr ''nodeCustomGraphicsSizeSync'', PStr toggle)] base_url h)"

text \<open>
  Concrete inputs for the examples below: the node table of the docstrings (one name bound
  to two SUIDs), and a remote application that knows two styles and answers every
  request.
\<close>

definition example_table :: table where
  "example_table =
     [(1022, ''YDR277C''), (1023, ''YDL194W''), (1099, ''AXD206W''), (1100, ''AXD206W'')]"

definition example_remote :: remote where
  "example_remote =
     \<lparr> visual_style_names = (\<lambda>h base_url. Inr [''default'', ''galFiltered Style'']),
       put_reply = (\<lambda>h operation body base_url. Inr PNone),
       post_reply = (\<lambda>h cmd. Inr (PDict [(PStr ''views'', PList [PInt 275240])])) \<rparr>"

section \<open>Properties of the validators\<close>








text \<open>
  Claim C10. The numeric validators accept booleans: a boolean is an instance of
  \<^verbatim>\<open>int\<close>, \<^verbatim>\<open>True\<close> and \<^verbatim>\<open>False\<close> compare as 1 and 0, so \<^verbatim>\<open>verify_opacities(True)\<close>,
  \<^verbatim>\<open>verify_opacities(False)\<close> and \<^verbatim>\<open>verify_slot(True)\<close> return without raising, whoever
  the caller is.
\<close>

theorem numeric_validators_accept_booleans:
  "isinstance_int (PBool b) \<and>
   verify_opacities caller (PBool True) = Inr () \<and>
   verify_opacities caller (PBool False) = Inr () \<and>
   verify_slot caller (PBool True) = Inr ()"
  by (simp add: verify_opacities_def verify_slot_def)

text \<open>
  The same at two concrete callers.
\<close>

theorem numeric_validators_accept_booleans_witness:
  "isinstance_int (PBool True) \<and>
   verify_opacities ''set_node_opacity_default'' (PBool True) = Inr () \<and>
   verify_opacities ''set_node_opacity_default'' (PBool False) = Inr () \<and>
   verify_slot ''set_node_custom_position'' (PBool True) = Inr ()"
  using numeric_validators_accept_booleans [of True "''set_node_opacity_default''"]
        numeric_validators_accept_booleans [of True "''set_node_custom_position''"]
  by blast




section \<open>Properties of the name-to-SUID translators\<close>

lemma not_False_in_map: "(False \<notin> set (map P xs)) = (\<forall>x\<in>set xs. P x)"
  by (induction xs) auto

lemma rows_eq_name_filter:
  "rows_eq_name df x = map fst (filter (\<lambda>row. Name (snd row) = x) df)"
proof -
  have "name_eq c x = (Name c = x)" for c
    by (cases x) auto
  then show ?thesis
    by (simp add: rows_eq_name_def)
qed

lemma rows_eq_name_Suid: "rows_eq_name df (Suid i) = []"
  by (simp add: rows_eq_name_filter)

lemma node_fast_path:
  assumes "b \<noteq> BNone" and "\<forall>x\<in>set (as_list b). in_index x (map fst df)"
  shows "node_name_to_node_suid df b = Inr (PList (map of_ident (as_list b)))"
  using assms by (simp add: node_name_to_node_suid_def Let_def not_False_in_map)

lemma edge_fast_path:
  assumes "b \<noteq> BNone" and "\<forall>x\<in>set (as_list b). in_index x (map fst df)"
  shows "edge_name_to_edge_suid df b = Inr (PList (map of_ident (as_list b)))"
  using assms by (simp add: edge_name_to_edge_suid_def Let_def not_False_in_map)

lemma zero_rows_test:
  "(True \<in> set (map (\<lambda>x. length x = 0) (map f xs))) = (\<exists>x\<in>set xs. f x = [])"
  by (induction xs) auto

lemma node_translating_path:
  assumes "b \<noteq> BNone" and "\<exists>x\<in>set (as_list b). \<not> in_index x (map fst df)"
  shows "node_name_to_node_suid df b =
     (if \<exists>x\<in>set (as_list b). rows_eq_name df x = []
      then Inl (CyError [Lit ''Invalid name in node name list: '',
                         Fmt (PList (map of_ident (as_list b)))] None)
      else Inr (PList (map (\<lambda>x. if length (rows_eq_name df x) = 1 then PInt (rows_eq_name df x ! 0)
                                  else PList (map PInt (rows_eq_name df x))) (as_list b))))"
proof -
  have absent: "\<not> (\<forall>x\<in>set (as_list b). in_index x (map fst df))"
    using assms(2) by blast
  show ?thesis
    unfolding node_name_to_node_suid_def Let_def zero_rows_test not_False_in_map
    using assms(1) absent by (auto simp add: comp_def)
qed

lemma edge_translating_path:
  assumes "b \<noteq> BNone" and "\<exists>x\<in>set (as_list b). \<not> in_index x (map fst df)"
  shows "edge_name_to_edge_suid df b =
     (if \<exists>x\<in>set (as_list b). rows_eq_name df x = []
      then Inl (CyError [Lit ''Invalid edge name in list: '',
                         Fmt (PList (map of_ident (as_list b)))] None)
      else Inr (PList (map (\<lambda>x. if length (rows_eq_name df x) = 1 then PInt (rows_eq_name df x ! 0)
                                  else PList (map PInt (rows_eq_name df x))) (as_list b))))"
proof -
  have absent: "\<not> (\<forall>x\<in>set (as_list b). in_index x (map fst df))"
    using assms(2) by blast
  show ?thesis
    unfolding edge_name_to_edge_suid_def Let_def zero_rows_test not_False_in_map
    using assms(1) absent by (auto simp add: comp_def)
qed

text \<open>
  Claim C1. When the argument is not \<^verbatim>\<open>None\<close> and every element of the batch (a single
  string first becomes the list of that string) is in the index of the table, both
  translators return the batch unchanged.
\<close>

theorem name_to_suid_identity_when_all_present:
  assumes "b \<noteq> BNone"
    and "\<forall>x\<in>set (as_list b). in_index x (map fst df)"
  shows "node_name_to_node_suid df b = Inr (PList (map of_ident (as_list b))) \<and>
         edge_name_to_edge_suid df b = Inr (PList (map of_ident (as_list b)))"
  using assms by (simp add: node_fast_path edge_fast_path)

text \<open>
  The docstring table and a batch of two SUIDs of its index.
\<close>

theorem name_to_suid_identity_when_all_present_witness:
  "node_name_to_node_suid example_table (BList [Suid 1022, Suid 1100]) =
     Inr (PList [PInt 1022, PInt 1100]) \<and>
   edge_name_to_edge_suid example_table (BList [Suid 1022, Suid 1100]) =
     Inr (PList [PInt 1022, PInt 1100])"
proof -
  have "BList [Suid 1022, Suid 1100] \<noteq> BNone"
    by simp
  moreover have "\<forall>x\<in>set (as_list (BList [Suid 1022, Suid 1100])). in_index x (map fst example_table)"
    by (simp add: example_table_def)
  ultimately show ?thesis
    using name_to_suid_identity_when_all_present
            [of "BList [Suid 1022, Suid 1100]" example_table]
    by simp
qed

text \<open>
  Claim C2. On the translating path (some element is not in the index), when every
  element matches at least one row by name, both translators return a list as long as
  the batch; at a position whose element matches exactly one row the output is that
  row's SUID as a scalar, and at a position whose element matches \<open>k > 1\<close> rows the
  output is a list of \<open>k\<close> SUIDs, the SUIDs of all the rows with that name.
\<close>

theorem name_to_suid_scalar_or_all_candidates:
  assumes "b \<noteq> BNone"
    and "\<exists>x\<in>set (as_list b). \<not> in_index x (map fst df)"
    and "\<forall>x\<in>set (as_list b). filter (\<lambda>row. Name (snd row) = x) df \<noteq> []"
  shows "\<forall>f\<in>{node_name_to_node_suid, edge_name_to_edge_suid}.
           \<exists>ys. f df b = Inr (PList ys) \<and> length ys = length (as_list b) \<and>
             (\<forall>i<length (as_list b).
                (\<forall>s n. filter (\<lambda>row. Name (snd row) = as_list b ! i) df = [(s, n)]
                    \<longrightarrow> ys ! i = PInt s) \<and>
                (\<forall>k. 1 < k \<and> length (filter (\<lambda>row. Name (snd row) = as_list b ! i) df) = k
                    \<longrightarrow> (\<exists>ss. ys ! i = PList (map PInt ss) \<and> length ss = k \<and>
                            set ss = fst ` {row \<in> set df. Name (snd row) = as_list b ! i})))"
proof -
  let ?out = "map (\<lambda>x. if length (rows_eq_name df x) = 1 then PInt (rows_eq_name df x ! 0)
                        else PList (map PInt (rows_eq_name df x))) (as_list b)"
  from assms(3) have known: "\<not> (\<exists>x\<in>set (as_list b). rows_eq_name df x = [])"
    by (simp add: rows_eq_name_filter)
  have node: "node_name_to_node_suid df b = Inr (PList ?out)"
    using assms(1,2) known by (simp add: node_translating_path)
  have edge: "edge_name_to_edge_suid df b = Inr (PList ?out)"
    using assms(1,2) known by (simp add: edge_translating_path)
  have elems: "\<forall>i<length (as_list b).
      (\<forall>s n. filter (\<lambda>row. Name (snd row) = as_list b ! i) df = [(s, n)]
          \<longrightarrow> ?out ! i = PInt s) \<and>
      (\<forall>k. 1 < k \<and> length (filter (\<lambda>row. Name (snd row) = as_list b ! i) df) = k
          \<longrightarrow> (\<exists>ss. ?out ! i = PList (map PInt ss) \<and> length ss = k \<and>
                  set ss = fst ` {row \<in> set df. Name (snd row) = as_list b ! i}))"
  proof (intro allI impI conjI)
    fix i s n
    assume "i < length (as_list b)"
      and "filter (\<lambda>row. Name (snd row) = as_list b ! i) df = [(s, n)]"
    then show "?out ! i = PInt s"
      by (simp add: rows_eq_name_filter)
  next
    fix i k
    assume i: "i < length (as_list b)"
      and k: "1 < k \<and> length (filter (\<lambda>row. Name (snd row) = as_list b ! i) df) = k"
    let ?ss = "rows_eq_name df (as_list b ! i)"
    have "?out ! i = PList (map PInt ?ss)"
      using i k by (simp add: rows_eq_name_filter)
    moreover have "length ?ss = k"
      using k by (simp add: rows_eq_name_filter)
    moreover have "set ?ss = fst ` {row \<in> set df. Name (snd row) = as_list b ! i}"
      by (simp add: rows_eq_name_filter)
    ultimately show "\<exists>ss. ?out ! i = PList (map PInt ss) \<and> length ss = k \<and>
                  set ss = fst ` {row \<in> set df. Name (snd row) = as_list b ! i}"
      by blast
  qed
  have len: "length ?out = length (as_list b)"
    by simp
  show ?thesis
    using node edge elems len by blast
qed

text \<open>
  The docstring example: one unambiguous name and one name bound to two SUIDs.
\<close>

theorem name_to_suid_scalar_or_all_candidates_witness:
  "\<exists>ys ss. node_name_to_node_suid example_table (BList [Name ''YDR277C'', Name ''AXD206W''])
              = Inr (PList ys) \<and>
     length ys = 2 \<and> ys ! 0 = PInt 1022 \<and> ys ! 1 = PList (map PInt ss) \<and>
     length ss = 2 \<and> set ss = {1099, 1100}"
proof -
  let ?b = "BList [Name ''YDR277C'', Name ''AXD206W'']"
  have h1: "?b \<noteq> BNone"
    by simp
  have h2: "\<exists>x\<in>set (as_list ?b). \<not> in_index x (map fst example_table)"
    by simp
  have h3: "\<forall>x\<in>set (as_list ?b). filter (\<lambda>row. Name (snd row) = x) example_table \<noteq> []"
    by (simp add: example_table_def)
  from name_to_suid_scalar_or_all_candidates [OF h1 h2 h3]
  obtain ys where ys: "node_name_to_node_suid example_table ?b = Inr (PList ys)"
      "length ys = length (as_list ?b)"
      "\<forall>i<length (as_list ?b).
         (\<forall>s n. filter (\<lambda>row. Name (snd row) = as_list ?b ! i) example_table = [(s, n)]
             \<longrightarrow> ys ! i = PInt s) \<and>
         (\<forall>k. 1 < k \<and> length (filter (\<lambda>row. Name (snd row) = as_list ?b ! i) example_table) = k
             \<longrightarrow> (\<exists>ss. ys ! i = PList (map PInt ss) \<and> length ss = k \<and>
                     set ss = fst ` {row \<in> set example_table. Name (snd row) = as_list ?b ! i}))"
    by blast
  have i0: "0 < length (as_list ?b)" and i1: "1 < length (as_list ?b)"
    by simp_all
  have one: "filter (\<lambda>row. Name (snd row) = as_list ?b ! 0) example_table = [(1022, ''YDR277C'')]"
    by (simp add: example_table_def)
  have two: "1 < (2::nat) \<and>
      length (filter (\<lambda>row. Name (snd row) = as_list ?b ! 1) example_table) = 2"
    by (simp add: example_table_def)
  have cands: "fst ` {row \<in> set example_table. Name (snd row) = as_list ?b ! 1} = {1099, 1100}"
  proof -
    have "fst ` {row \<in> set example_table. Name (snd row) = as_list ?b ! 1} =
          set (map fst (filter (\<lambda>row. Name (snd row) = as_list ?b ! 1) example_table))"
      by simp
    also have "\<dots> = {1099, 1100}"
      by (simp add: example_table_def)
    finally show ?thesis .
  qed
  from ys(3) i0 have
    "\<forall>s n. filter (\<lambda>row. Name (snd row) = as_list ?b ! 0) example_table = [(s, n)]
        \<longrightarrow> ys ! 0 = PInt s"
    by blast
  with one have y0: "ys ! 0 = PInt 1022"
    by blast
  from ys(3) i1 have
    "\<forall>k. 1 < k \<and> length (filter (\<lambda>row. Name (snd row) = as_list ?b ! 1) example_table) = k
        \<longrightarrow> (\<exists>ss. ys ! 1 = PList (map PInt ss) \<and> length ss = k \<and>
               set ss = fst ` {row \<in> set example_table. Name (snd row) = as_list ?b ! 1})"
    by blast
  with two have "\<exists>ss. ys ! 1 = PList (map PInt ss) \<and> length ss = 2 \<and>
               set ss = fst ` {row \<in> set example_table. Name (snd row) = as_list ?b ! 1}"
    by blast
  with cands obtain ss where "ys ! 1 = PList (map PInt ss)" "length ss = 2"
      "set ss = {1099, 1100}"
    by auto
  with ys(1,2) y0 show ?thesis
    by auto
qed

text \<open>
  Claim C3. On the translating path, when some element matches no row by name, the
  translator raises \<^verbatim>\<open>CyError\<close> with a message that interpolates the whole batch; the
  result is the error alone, so nothing translated is returned.
\<close>

theorem name_to_suid_unknown_name_raises:
  assumes "b \<noteq> BNone"
    and "\<exists>x\<in>set (as_list b). \<not> in_index x (map fst df)"
    and "\<exists>x\<in>set (as_list b). filter (\<lambda>row. Name (snd row) = x) df = []"
  shows "node_name_to_node_suid df b =
           Inl (CyError [Lit ''Invalid name in node name list: '',
                         Fmt (PList (map of_ident (as_list b)))] None) \<and>
         edge_name_to_edge_suid df b =
           Inl (CyError [Lit ''Invalid edge name in list: '',
                         Fmt (PList (map of_ident (as_list b)))] None)"
proof -
  from assms(3) have "\<exists>x\<in>set (as_list b). rows_eq_name df x = []"
    by (simp add: rows_eq_name_filter)
  then show ?thesis
    using assms(1,2) by (simp add: node_translating_path edge_translating_path)
qed

text \<open>
  A batch with one known and one unknown name, and a single unknown edge name.
\<close>

theorem name_to_suid_unknown_name_raises_witness:
  "node_name_to_node_suid example_table (BList [Name ''YDR277C'', Name ''bogus'']) =
     Inl (CyError [Lit ''Invalid name in node name list: '',
                   Fmt (PList [PStr ''YDR277C'', PStr ''bogus''])] None) \<and>
   edge_name_to_edge_suid example_table (BStr ''bogus'') =
     Inl (CyError [Lit ''Invalid edge name in list: '', Fmt (PList [PStr ''bogus''])] None)"
proof -
  let ?b = "BList [Name ''YDR277C'', Name ''bogus'']"
  have "\<exists>x\<in>set (as_list ?b). \<not> in_index x (map fst example_table)"
    by simp
  moreover have "\<exists>x\<in>set (as_list ?b). filter (\<lambda>row. Name (snd row) = x) example_table = []"
    by (simp add: example_table_def)
  moreover have "\<exists>x\<in>set (as_list (BStr ''bogus'')). \<not> in_index x (map fst example_table)"
    by simp
  moreover have "\<exists>x\<in>set (as_list (BStr ''bogus'')).
      filter (\<lambda>row. Name (snd row) = x) example_table = []"
    by (simp add: example_table_def)
  ultimately show ?thesis
    using name_to_suid_unknown_name_raises [of ?b example_table]
          name_to_suid_unknown_name_raises [of "BStr ''bogus''" example_table]
    by simp
qed

text \<open>
  Claim C4. A batch that holds a SUID of the index together with an element that is
  not in the index takes the translating path; there the SUID is looked up as a name, an
  integer equals no name of the table, and the translator raises the invalid-name error
  instead of passing the SUID through.
\<close>

theorem name_to_suid_mixed_batch_fails:
  assumes "Suid s \<in> set names"
    and "s \<in> set (map fst df)"
    and "\<exists>x\<in>set names. \<not> in_index x (map fst df)"
  shows "node_name_to_node_suid df (BList names) =
           Inl (CyError [Lit ''Invalid name in node name list: '',
                         Fmt (PList (map of_ident names))] None) \<and>
         edge_name_to_edge_suid df (BList names) =
           Inl (CyError [Lit ''Invalid edge name in list: '',
                         Fmt (PList (map of_ident names))] None)"
proof -
  have "\<exists>x\<in>set (as_list (BList names)). rows_eq_name df x = []"
    using assms(1) rows_eq_name_Suid by force
  then show ?thesis
    using assms(3) by (simp add: node_translating_path edge_translating_path)
qed

text \<open>
  A valid SUID next to a valid name.
\<close>

theorem name_to_suid_mixed_batch_fails_witness:
  "node_name_to_node_suid example_table (BList [Suid 1022, Name ''YDL194W'']) =
     Inl (CyError [Lit ''Invalid name in node name list: '',
                   Fmt (PList [PInt 1022, PStr ''YDL194W''])] None) \<and>
   edge_name_to_edge_suid example_table (BList [Suid 1022, Name ''YDL194W'']) =
     Inl (CyError [Lit ''Invalid edge name in list: '',
                   Fmt (PList [PInt 1022, PStr ''YDL194W''])] None)"
proof -
  have "Suid 1022 \<in> set [Suid 1022, Name ''YDL194W'']"
    by simp
  moreover have "1022 \<in> set (map fst example_table)"
    by (simp add: example_table_def)
  moreover have "\<exists>x\<in>set [Suid 1022, Name ''YDL194W'']. \<not> in_index x (map fst example_table)"
    by simp
  ultimately show ?thesis
    using name_to_suid_mixed_batch_fails [of 1022 "[Suid 1022, Name ''YDL194W'']" example_table]
    by simp
qed

section \<open>Round trip\<close>

lemma list_index_row:
  assumes "distinct (map fst df)" and "(s, n) \<in> set df"
  shows "\<exists>i. list_index (map fst df) (Suid s) = Some i \<and> map snd df ! i = n"
  using assms
proof (induction df)
  case Nil
  then show ?case by simp
next
  case (Cons row df)
  show ?case
  proof (cases "fst row = s")
    case True
    with Cons.prems have "row = (s, n)"
      by (cases row) (auto simp add: rev_image_eqI)
    then show ?thesis by simp
  next
    case False
    with Cons.prems have "distinct (map fst df)" and "(s, n) \<in> set df"
      by auto
    with Cons.IH obtain i where "list_index (map fst df) (Suid s) = Some i" "map snd df ! i = n"
      by blast
    with False show ?thesis by simp
  qed
qed

lemma node_suid_to_node_name_single:
  assumes "distinct (map fst df)" and "(s, n) \<in> set df"
  shows "node_suid_to_node_name df (BList [Suid s]) = Inr (PList [PStr n])"
proof -
  from list_index_row [OF assms] obtain i
    where "list_index (map fst df) (Suid s) = Some i" "map snd df ! i = n"
    by blast
  then show ?thesis
    by (simp add: node_suid_to_node_name_def Let_def)
qed

lemma node_name_to_node_suid_single:
  assumes "filter (\<lambda>row. snd row = n) df = [(s, n)]" and "b = BStr n \<or> b = BList [Name n]"
  shows "node_name_to_node_suid df b = Inr (PList [PInt s])"
proof -
  have rows: "rows_eq_name df (Name n) = [s]"
    using assms(1) by (simp add: rows_eq_name_filter)
  from assms(2) have b: "b \<noteq> BNone" "as_list b = [Name n]"
    by auto
  then have "\<exists>x\<in>set (as_list b). \<not> in_index x (map fst df)"
    by simp
  with b rows show ?thesis
    by (simp add: node_translating_path)
qed

text \<open>
  Claim C5. In a table whose SUIDs are distinct (the data model's invariant: a SUID is
  unique), let exactly one row have the name \<open>n\<close>, with SUID \<open>s\<close>. A string is never in
  the index, so \<^verbatim>\<open>node_name_to_node_suid\<close> translates \<open>n\<close>, given as a string or as a
  one-element list, to the list \<open>[s]\<close>; \<^verbatim>\<open>node_suid_to_node_name\<close> translates that list
  back to \<open>[n]\<close>.
\<close>

theorem node_name_suid_round_trip:
  assumes "distinct (map fst df)"
    and "filter (\<lambda>row. snd row = n) df = [(s, n)]"
  shows "node_name_to_node_suid df (BStr n) = Inr (PList (map of_ident [Suid s])) \<and>
         node_name_to_node_suid df (BList [Name n]) = Inr (PList (map of_ident [Suid s])) \<and>
         node_suid_to_node_name df (BList [Suid s]) = Inr (PList [PStr n])"
proof -
  have "(s, n) \<in> set (filter (\<lambda>row. snd row = n) df)"
    using assms(2) by simp
  then have row: "(s, n) \<in> set df"
    by simp
  show ?thesis
    using node_name_to_node_suid_single [OF assms(2)] node_suid_to_node_name_single [OF assms(1) row]
    by simp
qed

text \<open>
  The docstring table and one of its unambiguous names.
\<close>

theorem node_name_suid_round_trip_witness:
  "node_name_to_node_suid example_table (BStr ''YDL194W'') = Inr (PList [PInt 1023]) \<and>
   node_name_to_node_suid example_table (BList [Name ''YDL194W'']) = Inr (PList [PInt 1023]) \<and>
   node_suid_to_node_name example_table (BList [Suid 1023]) = Inr (PList [PStr ''YDL194W''])"
proof -
  have "distinct (map fst example_table)"
    by (simp add: example_table_def)
  moreover have "filter (\<lambda>row. snd row = ''YDL194W'') example_table = [(1023, ''YDL194W'')]"
    by (simp add: example_table_def)
  ultimately show ?thesis
    using node_name_suid_round_trip [of example_table "''YDL194W''" 1023]
    by simp
qed

section \<open>Properties of the style dependency setters\<close>

text \<open>
  Claim C7. When the style name is not among the names the remote application reports,
  \<^verbatim>\<open>set_style_dependencies\<close> raises the unknown-style \<^verbatim>\<open>CyError\<close>, whatever the
  dependencies are. All it has issued by then is the read of the style names and the
  line on \<^verbatim>\<open>stderr\<close>: the history gains no \<^verbatim>\<open>cyrest_put\<close> and no \<^verbatim>\<open>commands_post\<close>.
\<close>

theorem set_style_dependencies_unknown_style_no_write:
  assumes "visual_style_names R h base_url = Inr names"
    and "style_name \<notin> set names"
    and "msg = ''Error in py4cytoscape:set_style_dependencies. No visual style named \"''
                 @ style_name @ ''\"''"
  shows "set_style_dependencies R style_name dependencies base_url h =
           (Inl (CyError [Lit msg] None), h @ [GetVisualStyleNames base_url, StderrWrite msg]) \<and>
         filter is_write (drop (length h)
            (snd (set_style_dependencies R style_name dependencies base_url h))) = []"
  using assms
  by (simp add: set_style_dependencies_def get_visual_style_names_def Let_def)

text \<open>
  An unknown style name at the example remote.
\<close>

theorem set_style_dependencies_unknown_style_no_write_witness:
  "set_style_dependencies example_remote ''no such style''
       [(PStr ''arrowColorMatchesEdge'', PBool True)] ''http://127.0.0.1:1234/v1'' [] =
     (Inl (CyError [Lit ''Error in py4cytoscape:set_style_dependencies. No visual style named \"no such style\"''] None),
      [GetVisualStyleNames ''http://127.0.0.1:1234/v1'',
       StderrWrite ''Error in py4cytoscape:set_style_dependencies. No visual style named \"no such style\"''])"
proof -
  have "visual_style_names example_remote [] ''http://127.0.0.1:1234/v1'' =
          Inr [''default'', ''galFiltered Style'']"
    by (simp add: example_remote_def)
  moreover have "''no such style'' \<notin> set [''default'', ''galFiltered Style'']"
    by simp
  ultimately show ?thesis
    using set_style_dependencies_unknown_style_no_write
      [of example_remote "[]" "''http://127.0.0.1:1234/v1''" "[''default'', ''galFiltered Style'']"
          "''no such style''" _ "[(PStr ''arrowColorMatchesEdge'', PBool True)]"]
    by simp
qed

text \<open>
  Claim C8. For a known style name, \<^verbatim>\<open>set_style_dependencies\<close> builds one record
  \<^verbatim>\<open>{'visualPropertyDependency': dep, 'enabled': val}\<close> per item of the mapping, issues
  the PUT with that list as body, then issues the \<^verbatim>\<open>vizmap apply styles\<close> command, and
  returns what that command returns. The value \<open>res\<close> the PUT returned appears nowhere in
  the result: it is discarded.
\<close>

theorem set_style_dependencies_put_then_reapply:
  assumes "visual_style_names R h base_url = Inr names"
    and "style_name \<in> set names"
    and "dep_list = PList (map (\<lambda>(dep, val).
            PDict [(PStr ''visualPropertyDependency'', dep), (PStr ''enabled'', val)]) dependencies)"
    and "operation = ''styles/'' @ style_name @ ''/dependencies''"
    and "cmd = ''vizmap apply styles=\"'' @ style_name @ ''\"''"
    and "h2 = h @ [GetVisualStyleNames base_url, CyrestPut operation dep_list base_url False]"
    and "put_reply R (h @ [GetVisualStyleNames base_url]) operation dep_list base_url = Inr res"
  shows "set_style_dependencies R style_name dependencies base_url h =
           (post_reply R h2 cmd, h2 @ [CommandsPost cmd])"
  using assms
  by (simp add: set_style_dependencies_def get_visual_style_names_def cyrest_put_def
        commands_post_def Let_def)

text \<open>
  The docstring example at the example remote.
\<close>

theorem set_style_dependencies_put_then_reapply_witness:
  "set_style_dependencies example_remote ''galFiltered Style''
       [(PStr ''arrowColorMatchesEdge'', PBool True)] ''http://127.0.0.1:1234/v1'' [] =
     (Inr (PDict [(PStr ''views'', PList [PInt 275240])]),
      [GetVisualStyleNames ''http://127.0.0.1:1234/v1'',
       CyrestPut ''styles/galFiltered Style/dependencies''
         (PList [PDict [(PStr ''visualPropertyDependency'', PStr ''arrowColorMatchesEdge''),
                        (PStr ''enabled'', PBool True)]])
         ''http://127.0.0.1:1234/v1'' False,
       CommandsPost ''vizmap apply styles=\"galFiltered Style\"''])"
proof -
  have "visual_style_names example_remote [] ''http://127.0.0.1:1234/v1'' =
          Inr [''default'', ''galFiltered Style'']"
    by (simp add: example_remote_def)
  moreover have "''galFiltered Style'' \<in> set [''default'', ''galFiltered Style'']"
    by simp
  moreover have "put_reply example_remote ([] @ [GetVisualStyleNames ''http://127.0.0.1:1234/v1''])
      (''styles/'' @ ''galFiltered Style'' @ ''/dependencies'')
      (PList (map (\<lambda>(dep, val).
            PDict [(PStr ''visualPropertyDependency'', dep), (PStr ''enabled'', val)])
          [(PStr ''arrowColorMatchesEdge'', PBool True)]))
      ''http://127.0.0.1:1234/v1'' = Inr PNone"
    by (simp add: example_remote_def)
  ultimately show ?thesis
    using set_style_dependencies_put_then_reapply
      [of example_remote "[]" "''http://127.0.0.1:1234/v1''" "[''default'', ''galFiltered Style'']"
          "''galFiltered Style''" _ "[(PStr ''arrowColorMatchesEdge'', PBool True)]" _ _ _ PNone]
    by (simp add: example_remote_def)
qed

text \<open>
  Claim C9, as stated, fails: the flag value a specific setter stages is not the
  boolean it was given. \<^verbatim>\<open>match_arrow_color_to_edge(True)\<close> issues another PUT than
  \<^verbatim>\<open>set_style_dependencies(dependencies={'arrowColorMatchesEdge': True})\<close>.
\<close>

theorem specific_setters_stage_boolean_counterexample:
  "snd (match_arrow_color_to_edge example_remote True ''default'' ''http://127.0.0.1:1234/v1'' []) \<noteq>
   snd (set_style_dependencies example_remote ''default''
          [(PStr ''arrowColorMatchesEdge'', PBool True)] ''http://127.0.0.1:1234/v1'' [])"
  by (simp add: match_arrow_color_to_edge_def set_style_dependencies_def
        get_visual_style_names_def cyrest_put_def commands_post_def example_remote_def Let_def)

text \<open>
  Claim C9, amended. Each specific setter is the generic setter called with one fixed
  key (\<^verbatim>\<open>'arrowColorMatchesEdge'\<close>, \<^verbatim>\<open>'nodeSizeLocked'\<close>, \<^verbatim>\<open>'nodeCustomGraphicsSizeSync'\<close>)
  whose flag value is the string \<^verbatim>\<open>'true'\<close> when the supplied state is true and the string
  \<^verbatim>\<open>'false'\<close> otherwise; it returns the generic setter's result.
\<close>

theorem specific_setters_specialise_generic:
  "match_arrow_color_to_edge R new_state style_name base_url h =
     set_style_dependencies R style_name
       [(PStr ''arrowColorMatchesEdge'', PStr (if new_state then ''true'' else ''false''))]
       base_url h \<and>
   lock_node_dimensions R new_state style_name base_url h =
     set_style_dependencies R style_name
       [(PStr ''nodeSizeLocked'', PStr (if new_state then ''true'' else ''false''))]
       base_url h \<and>
   sync_node_custom_graphics_size R new_state style_name base_url h =
     set_style_dependencies R style_name
       [(PStr ''nodeCustomGraphicsSizeSync'', PStr (if new_state then ''true'' else ''false''))]
       base_url h"
  by (simp add: match_arrow_color_to_edge_def lock_node_dimensions_def
        sync_node_custom_graphics_size_def Let_def)

text \<open>
  The three setters at the example remote: the body of the PUT holds the string
  \<^verbatim>\<open>'true'\<close>.
\<close>

theorem specific_setters_specialise_generic_witness:
  "match_arrow_color_to_edge example_remote True ''default'' ''http://127.0.0.1:1234/v1'' [] =
     (Inr (PDict [(PStr ''views'', PList [PInt 275240])]),
      [GetVisualStyleNames ''http://127.0.0.1:1234/v1'',
       CyrestPut ''styles/default/dependencies''
         (PList [PDict [(PStr ''visualPropertyDependency'', PStr ''arrowColorMatchesEdge''),
                        (PStr ''enabled'', PStr ''true'')]])
         ''http://127.0.0.1:1234/v1'' False,
       CommandsPost ''vizmap apply styles=\"default\"'']) \<and>
   fst (lock_node_dimensions example_remote False ''default'' ''http://127.0.0.1:1234/v1'' []) =
     Inr (PDict [(PStr ''views'', PList [PInt 275240])]) \<and>
   fst (sync_node_custom_graphics_size example_remote False ''default'' ''http://127.0.0.1:1234/v1'' []) =
     Inr (PDict [(PStr ''views'', PList [PInt 275240])])"
proof -
  have generic: "set_style_dependencies example_remote ''default'' [(PStr key, PStr toggle)]
        ''http://127.0.0.1:1234/v1'' [] =
     (Inr (PDict [(PStr ''views'', PList [PInt 275240])]),
      [GetVisualStyleNames ''http://127.0.0.1:1234/v1'',
       CyrestPut ''styles/default/dependencies''
         (PList [PDict [(PStr ''visualPropertyDependency'', PStr key),
                        (PStr ''enabled'', PStr toggle)]])
         ''http://127.0.0.1:1234/v1'' False,
       CommandsPost ''vizmap apply styles=\"default\"''])" for key toggle
    by (simp add: set_style_dependencies_def get_visual_style_names_def cyrest_put_def
          commands_post_def example_remote_def Let_def)
  show ?thesis
    using specific_setters_specialise_generic
            [of example_remote True "''default''" "''http://127.0.0.1:1234/v1''" "[]"]
          specific_setters_specialise_generic
            [of example_remote False "''default''" "''http://127.0.0.1:1234/v1''" "[]"]
    by (simp add: generic)
qed

end
